theory Spec2Isabelle
  imports Main
begin

section \<open>Focus timer: heartbeat validation and streak reconciliation\<close>

text \<open>
  The development embeds the heartbeat handler kept in \<^verbatim>\<open>app/api/mantra/route.ts\<close>
  (the \<^verbatim>\<open>POST\<close> of the server-side timer validation, \<^verbatim>\<open>completeTimer\<close>, \<^verbatim>\<open>updateStreak\<close>)
  and the completion sync of the service worker \<^verbatim>\<open>public/sw.js\<close>
  (\<^verbatim>\<open>syncTimerCompletion\<close>).

  Conventions of the embedding.
  \<^item> An instant is an \<open>int\<close>: milliseconds since the epoch, what \<^verbatim>\<open>Date.now()\<close> and
    \<^verbatim>\<open>getTime()\<close> return.
  \<^item> A calendar date \<^verbatim>\<open>YYYY-MM-DD\<close> is the \<open>int\<close> number of days since 1970-01-01.
    \<^verbatim>\<open>toISOString().split('T')[0]\<close> is the UTC date of an instant, and two such strings
    are \<^verbatim>\<open>===\<close> exactly when their day numbers are equal.
  \<^item> A nullable column is an \<open>option\<close>, and so is a property read that may yield
    \<^verbatim>\<open>undefined\<close>.
  \<^item> A number that comes from unvalidated input is a \<open>js_number\<close>: an integer or \<^verbatim>\<open>NaN\<close>.
  \<^item> Every read of the server clock is an argument of its own, in the order in which
    the source reads it; nothing is assumed about how two reads relate.
  \<^item> Store operations succeed; the handler's \<^verbatim>\<open>catch\<close> (HTTP 500) is not reachable on
    the inputs modelled here.
\<close>

subsection \<open>Numbers of the source language\<close>

text \<open>
  The value of a numeric expression over input that nothing has validated: an integer,
  or \<^verbatim>\<open>NaN\<close> where an operand is \<^verbatim>\<open>undefined\<close> or does not convert to a number.
\<close>

datatype js_number = Num int | NaN

text \<open>\<^verbatim>\<open>Math.abs(a - x)\<close> for an integer \<open>a\<close>.\<close>

fun js_abs_sub :: "int \<Rightarrow> js_number \<Rightarrow> js_number" where
  "js_abs_sub a (Num e) = Num \<bar>a - e\<bar>"
| "js_abs_sub a NaN = NaN"

text \<open>\<^verbatim>\<open>x > k\<close>: every comparison with \<^verbatim>\<open>NaN\<close> is false.\<close>

fun js_gt :: "js_number \<Rightarrow> int \<Rightarrow> bool" where
  "js_gt (Num a) k = (a > k)"
| "js_gt NaN k = False"

text \<open>\<^verbatim>\<open>a - x\<close> for an integer \<open>a\<close> and a property read \<open>x\<close>; \<^verbatim>\<open>undefined\<close> gives \<^verbatim>\<open>NaN\<close>.\<close>

fun js_sub :: "int \<Rightarrow> int option \<Rightarrow> js_number" where
  "js_sub a (Some b) = Num (a - b)"
| "js_sub a None = NaN"

text \<open>\<^verbatim>\<open>x >= y\<close> for a number \<open>x\<close> and a property read \<open>y\<close>.\<close>

fun js_ge :: "js_number \<Rightarrow> int option \<Rightarrow> bool" where
  "js_ge (Num a) (Some b) = (a \<ge> b)"
| "js_ge (Num a) None = False"
| "js_ge NaN y = False"

subsection \<open>Streak rows and \<^verbatim>\<open>updateStreak\<close>\<close>

record streak =
  current_streak :: int
  longest_streak :: int
  last_completed :: "int option"
  timezone :: "string option"

text \<open>The table \<^verbatim>\<open>streaks\<close>; \<^verbatim>\<open>user_id\<close> is its primary key.\<close>

type_synonym streak_table = "string \<rightharpoonup> streak"

definition utcDate :: "int \<Rightarrow> int" where
  "utcDate t = t div 86400000"

text \<open>
  \<^verbatim>\<open>updateStreak(supabase, userId)\<close>. \<open>tToday\<close> is the instant read by \<^verbatim>\<open>new Date()\<close>
  for \<^verbatim>\<open>today\<close>, \<open>tYesterday\<close> the instant read by \<^verbatim>\<open>Date.now()\<close> for \<^verbatim>\<open>yesterday\<close>.
  The insert names no \<^verbatim>\<open>timezone\<close>, so the new row has none.
\<close>

definition updateStreak :: "streak_table \<Rightarrow> string \<Rightarrow> int \<Rightarrow> int \<Rightarrow> streak_table" where
  "updateStreak tbl userId tToday tYesterday =
     (let today = utcDate tToday;
          yesterday = utcDate (tYesterday - 86400000)
      in case tbl userId of
           None \<Rightarrow>
             tbl(userId \<mapsto> \<lparr>current_streak = 1, longest_streak = 1,
                              last_completed = Some today, timezone = None\<rparr>)
         | Some streak \<Rightarrow>
             if last_completed streak = Some yesterday then
               (let newStreak = current_streak streak + 1
                in tbl(userId \<mapsto> streak\<lparr>current_streak := newStreak,
                                          longest_streak := max newStreak (longest_streak streak),
                                          last_completed := Some today\<rparr>))
             else if last_completed streak \<noteq> Some today then
               tbl(userId \<mapsto> streak\<lparr>current_streak := 1, last_completed := Some today\<rparr>)
             else tbl)"

subsection \<open>Timer sessions and the heartbeat handler \<^verbatim>\<open>POST\<close>\<close>

text \<open>
  A row of \<^verbatim>\<open>timer_sessions\<close>, with the columns the handler reads and writes.
  The column \<^verbatim>\<open>id\<close> (the primary key) is the field \<open>row_id\<close>.
\<close>

record timer_session =
  row_id :: string
  user_id :: string
  start_time :: int
  end_time :: "int option"
  duration :: int
  completed :: bool
  validated :: bool
  suspicious :: bool
  drift_amount :: "js_number option"
  last_heartbeat :: "int option"
  heartbeat_count :: "int option"

record db =
  timer_sessions :: "timer_session list"
  streaks :: streak_table

text \<open>
  The JSON body of the request: \<^verbatim>\<open>{ userId, sessionId, elapsed, clientTime }\<close>. The handler
  validates none of it. The field \<open>elapsed\<close> is the number that \<^verbatim>\<open>serverElapsed - elapsed\<close>
  computes with: \<open>Num e\<close> for an integer \<open>e\<close> of either sign, \<open>NaN\<close> when the key is missing
  or its value does not convert to a number. \<^verbatim>\<open>sessionId\<close> and \<^verbatim>\<open>clientTime\<close> are
  destructured and never used.
\<close>

record request =
  userId :: string
  sessionId :: string
  elapsed :: js_number
  clientTime :: int

text \<open>
  The responses of the handler: \<^verbatim>\<open>{ error }\<close> with its HTTP status,
  \<^verbatim>\<open>{ warning, serverTime, drift }\<close>, \<^verbatim>\<open>{ status: 'completed', elapsed }\<close> and
  \<^verbatim>\<open>{ status: 'active', serverTime, elapsed, remaining }\<close>.
\<close>

datatype response =
    ErrorResponse string nat
  | WarningResponse string int js_number
  | CompletedResponse int
  | ActiveResponse int int int

text \<open>\<^verbatim>\<open>.update(patch).eq('id', sessionId)\<close>: every row with that id is patched.\<close>

definition update_eq_id :: "string \<Rightarrow> (timer_session \<Rightarrow> timer_session) \<Rightarrow>
    timer_session list \<Rightarrow> timer_session list" where
  "update_eq_id sid patch rows =
     map (\<lambda>r. if row_id r = sid then patch r else r) rows"

text \<open>
  \<^verbatim>\<open>.order('start_time', { ascending: false }).limit(1).single()\<close>: the row with the
  greatest \<^verbatim>\<open>start_time\<close>, none on an empty result (the error branch of the handler).
  Among rows of equal \<^verbatim>\<open>start_time\<close> the store may return any; the model returns the
  first in table order.
\<close>

fun latest :: "timer_session list \<Rightarrow> timer_session option" where
  "latest [] = None"
| "latest (r # rs) =
     (case latest rs of
        None \<Rightarrow> Some r
      | Some m \<Rightarrow> if start_time r < start_time m then Some m else Some r)"

text \<open>\<^verbatim>\<open>.eq('user_id', userId).eq('completed', false)\<close> followed by the above.\<close>

definition select_uncompleted :: "timer_session list \<Rightarrow> string \<Rightarrow> timer_session option" where
  "select_uncompleted rows uid =
     latest (filter (\<lambda>r. user_id r = uid \<and> \<not> completed r) rows)"

text \<open>
  \<^verbatim>\<open>completeTimer(supabase, sessionId, userId)\<close>; \<open>tEnd\<close> is the instant read for
  \<^verbatim>\<open>end_time\<close>, the other two are the reads of \<^verbatim>\<open>updateStreak\<close>.
\<close>

definition completeTimer :: "db \<Rightarrow> string \<Rightarrow> string \<Rightarrow> int \<Rightarrow> int \<Rightarrow> int \<Rightarrow> db" where
  "completeTimer d sid uid tEnd tToday tYesterday =
     d\<lparr>timer_sessions :=
         update_eq_id sid (\<lambda>r. r\<lparr>completed := True, end_time := Some tEnd, validated := True\<rparr>)
           (timer_sessions d),
       streaks := updateStreak (streaks d) uid tToday tYesterday\<rparr>"

text \<open>
  The handler. \<open>auth\<close> is the user of the Supabase auth session (\<open>None\<close> without one);
  \<open>clk k\<close> is the \<open>k\<close>-th read of the server clock made while the request is served,
  counted from 0 along the path taken: read 0 is the \<^verbatim>\<open>Date.now()\<close> of
  \<^verbatim>\<open>serverElapsed\<close>; on the drift path read 1 is \<^verbatim>\<open>serverTime\<close>; otherwise read 1 is
  \<^verbatim>\<open>last_heartbeat\<close>, and then either reads 2, 3, 4 are \<^verbatim>\<open>end_time\<close>, \<^verbatim>\<open>today\<close> and
  \<^verbatim>\<open>yesterday\<close>, or read 2 is the \<^verbatim>\<open>serverTime\<close> of the active response.
  The field \<^verbatim>\<open>sessionId\<close> of the request is read from the body and never used.
\<close>

definition POST :: "db \<Rightarrow> (nat \<Rightarrow> int) \<Rightarrow> string option \<Rightarrow> request \<Rightarrow> response \<times> db" where
  "POST d clk auth req =
     (if auth \<noteq> Some (userId req) then (ErrorResponse ''Unauthorized'' 401, d)
      else case select_uncompleted (timer_sessions d) (userId req) of
        None \<Rightarrow> (ErrorResponse ''No active timer session'' 404, d)
      | Some timerSession \<Rightarrow>
          (let serverElapsed = clk 0 - start_time timerSession;
               timeDrift = js_abs_sub serverElapsed (elapsed req)
           in if js_gt timeDrift 5000 then
                (WarningResponse ''Time drift detected'' (clk 1) timeDrift,
                 d\<lparr>timer_sessions :=
                     update_eq_id (row_id timerSession)
                       (\<lambda>r. r\<lparr>suspicious := True, drift_amount := Some timeDrift\<rparr>)
                       (timer_sessions d)\<rparr>)
              else
                (let d1 = d\<lparr>timer_sessions :=
                              update_eq_id (row_id timerSession)
                                (\<lambda>r. r\<lparr>last_heartbeat := Some (clk 1),
                                        heartbeat_count :=
                                          Some ((case heartbeat_count timerSession of
                                                   None \<Rightarrow> 0 | Some n \<Rightarrow> n) + 1)\<rparr>)
                                (timer_sessions d)\<rparr>
                 in if serverElapsed \<ge> duration timerSession * 1000 then
                      (CompletedResponse serverElapsed,
                       completeTimer d1 (row_id timerSession) (userId req)
                         (clk 2) (clk 3) (clk 4))
                    else
                      (ActiveResponse (clk 2) serverElapsed
                         (duration timerSession * 1000 - serverElapsed),
                       d1))))"

text \<open>The row stored under an id.\<close>

definition session_by_id :: "db \<Rightarrow> string \<Rightarrow> timer_session option" where
  "session_by_id d sid = find (\<lambda>r. row_id r = sid) (timer_sessions d)"

text \<open>The primary key of \<^verbatim>\<open>timer_sessions\<close>: no two rows share an id.\<close>

definition primary_key :: "db \<Rightarrow> bool" where
  "primary_key d = distinct (map row_id (timer_sessions d))"

subsection \<open>The service worker: \<^verbatim>\<open>syncTimerCompletion\<close>\<close>

text \<open>
  The record kept under the key \<^verbatim>\<open>'current'\<close> of the object store \<^verbatim>\<open>activeTimers\<close>.
  The store holds at most this one record, so it is an \<open>option\<close>. The fields
  \<^verbatim>\<open>duration\<close> and \<^verbatim>\<open>userId\<close> carry the prefix \<open>rec_\<close> here. \<^verbatim>\<open>saveTimerState\<close> puts the
  record; what it returns (\<^verbatim>\<open>transaction.complete\<close>) is not used by its caller.
\<close>

record timerRecord =
  startTime :: int
  rec_duration :: int
  serverTime :: int
  rec_userId :: string
  lastHeartbeat :: int

text \<open>The message data of \<^verbatim>\<open>START_TIMER\<close>, as the timer page posts it.\<close>

record timerData =
  td_startTime :: int
  td_duration :: int
  td_serverTime :: int
  td_userId :: string

definition saveTimerState :: "timerData \<Rightarrow> int \<Rightarrow> timerRecord option" where
  "saveTimerState data now =
     Some \<lparr>startTime = td_startTime data, rec_duration = td_duration data,
           serverTime = td_serverTime data, rec_userId = td_userId data,
           lastHeartbeat = now\<rparr>"

text \<open>
  \<^verbatim>\<open>getTimerState()\<close> returns \<^verbatim>\<open>store.get('current')\<close>. On the \<^verbatim>\<open>indexedDB\<close> the worker opens
  that is an \<^verbatim>\<open>IDBRequest\<close>, the pending request whose \<^verbatim>\<open>result\<close> will be the record; it is
  not a promise, so \<^verbatim>\<open>await\<close> hands the request object itself to the caller.
\<close>

datatype idb_request = IDBRequest "timerRecord option"

definition getTimerState :: "timerRecord option \<Rightarrow> idb_request" where
  "getTimerState store = IDBRequest store"

text \<open>
  The reads \<^verbatim>\<open>state.startTime\<close>, \<^verbatim>\<open>state.duration\<close> and \<^verbatim>\<open>state.userId\<close> of the worker, on
  what \<^verbatim>\<open>getTimerState()\<close> gave it. An \<^verbatim>\<open>IDBRequest\<close> has the properties \<^verbatim>\<open>result\<close>,
  \<^verbatim>\<open>error\<close>, \<^verbatim>\<open>source\<close>, \<^verbatim>\<open>transaction\<close>, \<^verbatim>\<open>readyState\<close> and its two handlers, and none
  of these three names: each read is \<^verbatim>\<open>undefined\<close>.
\<close>

definition state_startTime :: "idb_request \<Rightarrow> int option" where
  "state_startTime state = None"

definition state_duration :: "idb_request \<Rightarrow> int option" where
  "state_duration state = None"

definition state_userId :: "idb_request \<Rightarrow> string option" where
  "state_userId state = None"

definition clearTimerState :: "timerRecord option \<Rightarrow> timerRecord option" where
  "clearTimerState store = None"

text \<open>
  The body posted to \<^verbatim>\<open>/api/timer/complete\<close>; \<^verbatim>\<open>JSON.stringify\<close> leaves out a key whose
  value is \<^verbatim>\<open>undefined\<close>.
\<close>

record completion =
  c_userId :: "string option"
  c_duration :: "int option"
  c_startTime :: "int option"
  c_endTime :: int

text \<open>
  \<^verbatim>\<open>syncTimerCompletion()\<close>. \<open>tCheck\<close> is the clock read of \<^verbatim>\<open>elapsed\<close>, \<open>tEnd\<close> the one
  of \<^verbatim>\<open>endTime\<close>; \<open>fetch_ok\<close> says whether the promise of \<^verbatim>\<open>fetch\<close> resolves (it
  rejects on a network failure only, and then the \<^verbatim>\<open>catch\<close> keeps the record). The result
  is the request handed to \<^verbatim>\<open>fetch\<close>, if any, and the object store afterwards. The
  guard \<^verbatim>\<open>if (!state) return\<close> never fires: \<open>state\<close> is an object.
\<close>

definition syncTimerCompletion ::
    "timerRecord option \<Rightarrow> int \<Rightarrow> int \<Rightarrow> bool \<Rightarrow> completion option \<times> timerRecord option" where
  "syncTimerCompletion store tCheck tEnd fetch_ok =
     (let state = getTimerState store;
          elapsed_ms = js_sub tCheck (state_startTime state)
      in if js_ge elapsed_ms (state_duration state) then
           (Some \<lparr>c_userId = state_userId state, c_duration = state_duration state,
                  c_startTime = state_startTime state, c_endTime = tEnd\<rparr>,
            if fetch_ok then clearTimerState store else store)
         else (None, store))"

subsection \<open>The calendar date of the specification\<close>

text \<open>
  Following the words of the specification (its \<open>calendarDate(endTime, timezone)\<close>), not
  the source: the calendar date of an instant in a zone whose local time is \<open>utcOffset\<close>
  milliseconds ahead of UTC at that instant. The source has no counterpart.
\<close>

definition spec_calendarDate :: "int \<Rightarrow> int \<Rightarrow> int" where
  "spec_calendarDate t utcOffset = (t + utcOffset) div 86400000"

subsection \<open>Example data\<close>

text \<open>A server clock that returns the same instant at every read of one request.\<close>

definition fixed_clock :: "int \<Rightarrow> nat \<Rightarrow> int" where
  "fixed_clock t k = t"

text \<open>A ten-second session of user \<open>u1\<close> started at instant 0, and a store holding it.\<close>

definition ex_session :: timer_session where
  "ex_session = \<lparr>row_id = ''s1'', user_id = ''u1'', start_time = 0, end_time = None,
     duration = 10, completed = False, validated = False, suspicious = False,
     drift_amount = None, last_heartbeat = None, heartbeat_count = None\<rparr>"

definition no_streaks :: streak_table where
  "no_streaks = Map.empty"

definition ex_db :: db where
  "ex_db = \<lparr>timer_sessions = [ex_session], streaks = no_streaks\<rparr>"

text \<open>A heartbeat of user \<open>u1\<close> whose \<^verbatim>\<open>elapsed\<close> is the integer \<open>e\<close>.\<close>

definition ex_request :: "int \<Rightarrow> request" where
  "ex_request e = \<lparr>userId = ''u1'', sessionId = ''current'', elapsed = Num e,
     clientTime = 10000\<rparr>"





definition one_day_streaks :: streak_table where
  "one_day_streaks = no_streaks(''u1'' \<mapsto>
     \<lparr>current_streak = 1, longest_streak = 1, last_completed = Some 0, timezone = None\<rparr>)"




text \<open>
  A streak row whose \<^verbatim>\<open>last_completed\<close> is day 5; two rows of a two-day streak, last
  completed on 2024-01-01, which is day 19723, and on the day before; the row of a user in
  Tokyo (nine hours ahead of UTC) who completed a session on 2024-01-01.
\<close>

definition future_streaks :: streak_table where
  "future_streaks = no_streaks(''u1'' \<mapsto>
     \<lparr>current_streak = 4, longest_streak = 6, last_completed = Some 5, timezone = None\<rparr>)"

definition midnight_streaks :: streak_table where
  "midnight_streaks = no_streaks(''u1'' \<mapsto>
     \<lparr>current_streak = 2, longest_streak = 2, last_completed = Some 19723, timezone = None\<rparr>)"

definition day_before_streaks :: streak_table where
  "day_before_streaks = no_streaks(''u1'' \<mapsto>
     \<lparr>current_streak = 2, longest_streak = 2, last_completed = Some 19722, timezone = None\<rparr>)"

definition tokyo_streaks :: streak_table where
  "tokyo_streaks = no_streaks(''u1'' \<mapsto>
     \<lparr>current_streak = 1, longest_streak = 1, last_completed = Some 19723,
      timezone = Some ''Asia/Tokyo''\<rparr>)"

text \<open>
  What the timer page posts with \<^verbatim>\<open>START_TIMER\<close> for its default of 25 minutes:
  \<^verbatim>\<open>duration: seconds\<close> with \<^verbatim>\<open>seconds = duration * 60\<close>, started at
  2024-01-01T16:00:00Z.
\<close>

definition page_timerData :: timerData where
  "page_timerData = \<lparr>td_startTime = 1704124800000, td_duration = 25 * 60,
     td_serverTime = 1704124800000, td_userId = ''demo-user''\<rparr>"

subsection \<open>Auxiliary facts\<close>

lemma utcDate_yesterday: "utcDate (t - 86400000) = utcDate t - 1"
  unfolding utcDate_def by simp

lemma latest_mem: "latest rows = Some m \<Longrightarrow> m \<in> set rows"
  by (induction rows arbitrary: m) (auto split: option.splits if_splits)


lemma select_uncompleted_Some:
  assumes "select_uncompleted rows uid = Some ts"
  shows "ts \<in> set rows" and "user_id ts = uid" and "\<not> completed ts"
  using latest_mem [of "filter (\<lambda>r. user_id r = uid \<and> \<not> completed r) rows" ts] assms
  by (auto simp: select_uncompleted_def)


lemma find_update_eq_id_same:
  assumes "distinct (map row_id rows)" and "ts \<in> set rows" and "row_id (patch ts) = row_id ts"
  shows "find (\<lambda>r. row_id r = row_id ts) (update_eq_id (row_id ts) patch rows) = Some (patch ts)"
  using assms
proof (induction rows)
  case Nil
  then show ?case by simp
next
  case (Cons r rs)
  show ?case
  proof (cases "r = ts")
    case True
    with Cons.prems show ?thesis by (simp add: update_eq_id_def)
  next
    case False
    with Cons.prems have "ts \<in> set rs" by simp
    with Cons.prems have "row_id r \<noteq> row_id ts" by auto
    with Cons \<open>ts \<in> set rs\<close> show ?thesis by (simp add: update_eq_id_def)
  qed
qed

lemma find_update_eq_id_other:
  assumes "sid' \<noteq> sid" and "\<And>r. row_id (patch r) = row_id r"
  shows "find (\<lambda>r. row_id r = sid') (update_eq_id sid patch rows) = find (\<lambda>r. row_id r = sid') rows"
  using assms by (induction rows) (auto simp: update_eq_id_def)

lemma update_eq_id_twice:
  assumes "\<And>r. row_id (f r) = row_id r"
  shows "update_eq_id sid g (update_eq_id sid f rows) = update_eq_id sid (\<lambda>r. g (f r)) rows"
  using assms by (simp add: update_eq_id_def)



lemma POST_drift:
  assumes "auth = Some (userId req)"
    and "select_uncompleted (timer_sessions d) (userId req) = Some ts"
    and "js_gt (js_abs_sub (clk 0 - start_time ts) (elapsed req)) 5000"
  shows "POST d clk auth req =
    (WarningResponse ''Time drift detected'' (clk 1)
       (js_abs_sub (clk 0 - start_time ts) (elapsed req)),
     d\<lparr>timer_sessions := update_eq_id (row_id ts)
          (\<lambda>r. r\<lparr>suspicious := True,
                  drift_amount := Some (js_abs_sub (clk 0 - start_time ts) (elapsed req))\<rparr>)
          (timer_sessions d)\<rparr>)"
  using assms by (simp add: POST_def Let_def)

lemma POST_complete:
  assumes "auth = Some (userId req)"
    and "select_uncompleted (timer_sessions d) (userId req) = Some ts"
    and "\<not> js_gt (js_abs_sub (clk 0 - start_time ts) (elapsed req)) 5000"
    and "duration ts * 1000 \<le> clk 0 - start_time ts"
  shows "POST d clk auth req =
    (CompletedResponse (clk 0 - start_time ts),
     d\<lparr>timer_sessions := update_eq_id (row_id ts)
          (\<lambda>r. r\<lparr>last_heartbeat := Some (clk 1),
                  heartbeat_count := Some ((case heartbeat_count ts of None \<Rightarrow> 0 | Some n \<Rightarrow> n) + 1),
                  completed := True, end_time := Some (clk 2), validated := True\<rparr>)
          (timer_sessions d),
      streaks := updateStreak (streaks d) (userId req) (clk 3) (clk 4)\<rparr>)"
  using assms by (simp add: POST_def Let_def completeTimer_def update_eq_id_twice)


lemma js_gt_Num:
  "elapsed req = Num e \<Longrightarrow> js_gt (js_abs_sub a (elapsed req)) 5000 \<longleftrightarrow> 5000 < \<bar>a - e\<bar>"
  by simp


lemma map_update_eq_id:
  assumes "\<And>r. f (patch r) = f r"
  shows "map f (update_eq_id sid patch rows) = map f rows"
  using assms by (induction rows) (simp_all add: update_eq_id_def)

lemma session_by_id_update:
  assumes "primary_key d" and "select_uncompleted (timer_sessions d) uid = Some ts"
    and "row_id (patch ts) = row_id ts"
  shows "session_by_id (d\<lparr>timer_sessions := update_eq_id (row_id ts) patch (timer_sessions d)\<rparr>)
           (row_id ts) = Some (patch ts)"
proof -
  have "ts \<in> set (timer_sessions d)" using assms(2) by (rule select_uncompleted_Some)
  with assms(1,3) show ?thesis
    unfolding primary_key_def session_by_id_def by (simp add: find_update_eq_id_same)
qed

lemma session_by_id_update_streaks:
  "session_by_id (d\<lparr>timer_sessions := rows, streaks := tbl\<rparr>) sid
     = session_by_id (d\<lparr>timer_sessions := rows\<rparr>) sid"
  by (simp add: session_by_id_def)


lemma POST_frame_start_duration:
  "map start_time (timer_sessions (snd (POST d clk auth req))) = map start_time (timer_sessions d)
   \<and> map duration (timer_sessions (snd (POST d clk auth req))) = map duration (timer_sessions d)"
  by (simp add: POST_def Let_def completeTimer_def map_update_eq_id split: option.splits)




text \<open>Whatever the store holds and whatever the clock says, the worker sends nothing.\<close>

lemma syncTimerCompletion_never_sends:
  "syncTimerCompletion store tCheck tEnd fetch_ok = (None, store)"
  by (simp add: syncTimerCompletion_def state_startTime_def state_duration_def Let_def)

text \<open>
  The rules \<^verbatim>\<open>updateStreak\<close> follows when its two clock reads fall on the same UTC day,
  with \<open>utcDate tToday\<close> as the completion date.
\<close>

lemma streak_rules_same_day:
  assumes "utcDate tYesterday = utcDate tToday"
  shows "(tbl u = None \<longrightarrow>
            updateStreak tbl u tToday tYesterday
              = tbl(u \<mapsto> \<lparr>current_streak = 1, longest_streak = 1,
                             last_completed = Some (utcDate tToday), timezone = None\<rparr>))
       \<and> (\<forall>s. tbl u = Some s \<and> last_completed s = Some (utcDate tToday) \<longrightarrow>
            updateStreak tbl u tToday tYesterday = tbl)
       \<and> (\<forall>s. tbl u = Some s \<and> last_completed s = Some (utcDate tToday - 1) \<longrightarrow>
            updateStreak tbl u tToday tYesterday
              = tbl(u \<mapsto> s\<lparr>current_streak := current_streak s + 1,
                              longest_streak := max (longest_streak s) (current_streak s + 1),
                              last_completed := Some (utcDate tToday)\<rparr>))
       \<and> (\<forall>s. tbl u = Some s \<and> last_completed s \<noteq> Some (utcDate tToday)
              \<and> last_completed s \<noteq> Some (utcDate tToday - 1) \<longrightarrow>
            updateStreak tbl u tToday tYesterday
              = tbl(u \<mapsto> s\<lparr>current_streak := 1, last_completed := Some (utcDate tToday)\<rparr>))"
proof -
  have y: "utcDate (tYesterday - 86400000) = utcDate tToday - 1"
    using assms by (simp add: utcDate_yesterday)
  show ?thesis
    by (simp add: updateStreak_def Let_def y max.commute)
qed

lemma ex_select:
  "select_uncompleted (timer_sessions ex_db) (userId (ex_request e)) = Some ex_session"
  by (simp add: select_uncompleted_def ex_db_def ex_request_def ex_session_def)

lemma ex_primary_key: "primary_key ex_db"
  by (simp add: primary_key_def ex_db_def)

lemma ex_auth: "Some ''u1'' = Some (userId (ex_request e))"
  by (simp add: ex_request_def)

lemma ex_elapsed: "elapsed (ex_request e) = Num e"
  by (simp add: ex_request_def)



section \<open>The claims\<close>

subsection \<open>C1: what the client's elapsed value can change\<close>




subsection \<open>C2: a heartbeat beyond the drift tolerance\<close>

text \<open>
  C2: on an uncompleted session, when the server-measured elapsed time and the client's
  \<^verbatim>\<open>elapsed\<close> differ by more than 5000 ms, the handler flags the session as suspicious,
  stores that drift in \<^verbatim>\<open>drift_amount\<close>, answers with the drift warning carrying the
  server time and the drift, and does not complete the session on that call, whatever
  the server-measured elapsed time is; the streaks are not touched.
\<close>

theorem drift_warning:
  assumes "primary_key d" and "auth = Some (userId req)"
    and "select_uncompleted (timer_sessions d) (userId req) = Some ts"
    and "elapsed req = Num e"
    and "\<bar>clk 0 - start_time ts - e\<bar> > 5000"
  shows "fst (POST d clk auth req)
           = WarningResponse ''Time drift detected'' (clk 1) (Num \<bar>clk 0 - start_time ts - e\<bar>)
       \<and> (\<exists>r'. session_by_id (snd (POST d clk auth req)) (row_id ts) = Some r'
                \<and> suspicious r'
                \<and> drift_amount r' = Some (Num \<bar>clk 0 - start_time ts - e\<bar>)
                \<and> \<not> completed r' \<and> end_time r' = end_time ts)
       \<and> streaks (snd (POST d clk auth req)) = streaks d"
proof -
  have nc: "\<not> completed ts" using assms(3) by (rule select_uncompleted_Some)
  have gt: "js_gt (js_abs_sub (clk 0 - start_time ts) (elapsed req)) 5000"
    using assms(4,5) by simp
  show ?thesis
    using nc assms(4)
    by (simp add: POST_drift [where clk = clk, OF assms(2,3) gt]
        session_by_id_update [OF assms(1,3)])
qed

theorem drift_warning_witness:
  "primary_key ex_db
   \<and> Some ''u1'' = Some (userId (ex_request 0))
   \<and> select_uncompleted (timer_sessions ex_db) (userId (ex_request 0)) = Some ex_session
   \<and> elapsed (ex_request 0) = Num 0
   \<and> 5000 < \<bar>fixed_clock 10000 0 - start_time ex_session - 0\<bar>
   \<and> duration ex_session * 1000 \<le> fixed_clock 10000 0 - start_time ex_session
   \<and> fst (POST ex_db (fixed_clock 10000) (Some ''u1'') (ex_request 0))
       = WarningResponse ''Time drift detected'' 10000 (Num 10000)
   \<and> session_by_id (snd (POST ex_db (fixed_clock 10000) (Some ''u1'') (ex_request 0))) ''s1''
       = Some (ex_session\<lparr>suspicious := True, drift_amount := Some (Num 10000)\<rparr>)
   \<and> streaks (snd (POST ex_db (fixed_clock 10000) (Some ''u1'') (ex_request 0))) = no_streaks"
proof -
  have h: "5000 < \<bar>fixed_clock 10000 0 - start_time ex_session - 0\<bar>"
    by (simp add: fixed_clock_def ex_session_def)
  note w = drift_warning [where clk = "fixed_clock 10000",
      OF ex_primary_key ex_auth ex_select ex_elapsed h]
  have v: "fixed_clock 10000 0 = 10000" "start_time ex_session = 0"
    "duration ex_session = 10" "row_id ex_session = ''s1''" "streaks ex_db = no_streaks"
    by (simp_all add: fixed_clock_def ex_session_def ex_db_def)
  have s: "session_by_id (snd (POST ex_db (fixed_clock 10000) (Some ''u1'') (ex_request 0))) ''s1''
       = Some (ex_session\<lparr>suspicious := True, drift_amount := Some (Num 10000)\<rparr>)"
    by (simp add: POST_def Let_def select_uncompleted_def ex_db_def ex_request_def
        ex_session_def fixed_clock_def update_eq_id_def session_by_id_def)
  from w s show ?thesis
    using ex_primary_key ex_select by (simp add: v fixed_clock_def ex_request_def)
qed

subsection \<open>C3: completion\<close>

text \<open>
  C3: on an uncompleted session, when the drift is within 5000 ms and the
  server-measured elapsed time has reached \<open>duration * 1000\<close>, the handler marks the
  session completed, sets its \<^verbatim>\<open>end_time\<close>, runs \<^verbatim>\<open>updateStreak\<close> for the user of the
  session within the same call, and answers \<^verbatim>\<open>completed\<close> with the server-measured
  elapsed time.
\<close>

theorem completion:
  assumes "primary_key d" and "auth = Some (userId req)"
    and "select_uncompleted (timer_sessions d) (userId req) = Some ts"
    and "elapsed req = Num e"
    and "\<bar>clk 0 - start_time ts - e\<bar> \<le> 5000"
    and "duration ts * 1000 \<le> clk 0 - start_time ts"
  shows "fst (POST d clk auth req) = CompletedResponse (clk 0 - start_time ts)
       \<and> (\<exists>r'. session_by_id (snd (POST d clk auth req)) (row_id ts) = Some r'
                \<and> completed r' \<and> end_time r' = Some (clk 2))
       \<and> streaks (snd (POST d clk auth req))
           = updateStreak (streaks d) (user_id ts) (clk 3) (clk 4)"
proof -
  have u: "user_id ts = userId req" using assms(3) by (rule select_uncompleted_Some)
  have ngt: "\<not> js_gt (js_abs_sub (clk 0 - start_time ts) (elapsed req)) 5000"
    using assms(4,5) by simp
  show ?thesis
    by (simp add: POST_complete [where clk = clk, OF assms(2,3) ngt assms(6)] u
        session_by_id_update_streaks session_by_id_update [OF assms(1,3)])
qed

theorem completion_witness:
  "primary_key ex_db
   \<and> Some ''u1'' = Some (userId (ex_request 9000))
   \<and> select_uncompleted (timer_sessions ex_db) (userId (ex_request 9000)) = Some ex_session
   \<and> elapsed (ex_request 9000) = Num 9000
   \<and> \<bar>fixed_clock 10000 0 - start_time ex_session - 9000\<bar> \<le> 5000
   \<and> duration ex_session * 1000 \<le> fixed_clock 10000 0 - start_time ex_session
   \<and> fst (POST ex_db (fixed_clock 10000) (Some ''u1'') (ex_request 9000)) = CompletedResponse 10000
   \<and> session_by_id (snd (POST ex_db (fixed_clock 10000) (Some ''u1'') (ex_request 9000))) ''s1''
       = Some (ex_session\<lparr>last_heartbeat := Some 10000, heartbeat_count := Some 1,
            completed := True, end_time := Some 10000, validated := True\<rparr>)
   \<and> streaks (snd (POST ex_db (fixed_clock 10000) (Some ''u1'') (ex_request 9000))) ''u1''
       = Some \<lparr>current_streak = 1, longest_streak = 1, last_completed = Some 0, timezone = None\<rparr>"
proof -
  have h1: "\<bar>fixed_clock 10000 0 - start_time ex_session - 9000\<bar> \<le> 5000"
    by (simp add: fixed_clock_def ex_session_def)
  have h2: "duration ex_session * 1000 \<le> fixed_clock 10000 0 - start_time ex_session"
    by (simp add: fixed_clock_def ex_session_def)
  note w = completion [where clk = "fixed_clock 10000",
      OF ex_primary_key ex_auth ex_select ex_elapsed h1 h2]
  have v: "fixed_clock 10000 0 = 10000" "start_time ex_session = 0" "user_id ex_session = ''u1''"
    by (simp_all add: fixed_clock_def ex_session_def)
  have u: "updateStreak (streaks ex_db) ''u1'' (fixed_clock 10000 3) (fixed_clock 10000 4) ''u1''
       = Some \<lparr>current_streak = 1, longest_streak = 1, last_completed = Some 0, timezone = None\<rparr>"
    by (simp add: updateStreak_def ex_db_def no_streaks_def fixed_clock_def utcDate_def)
  have s: "session_by_id (snd (POST ex_db (fixed_clock 10000) (Some ''u1'') (ex_request 9000))) ''s1''
       = Some (ex_session\<lparr>last_heartbeat := Some 10000, heartbeat_count := Some 1,
            completed := True, end_time := Some 10000, validated := True\<rparr>)"
    by (simp add: POST_def Let_def select_uncompleted_def ex_db_def ex_request_def
        ex_session_def fixed_clock_def update_eq_id_def session_by_id_def completeTimer_def)
  from w have "fst (POST ex_db (fixed_clock 10000) (Some ''u1'') (ex_request 9000)) = CompletedResponse 10000"
    and "streaks (snd (POST ex_db (fixed_clock 10000) (Some ''u1'') (ex_request 9000))) ''u1''
       = Some \<lparr>current_streak = 1, longest_streak = 1, last_completed = Some 0, timezone = None\<rparr>"
    by (simp_all add: v u)
  with s h1 h2 show ?thesis using ex_primary_key ex_select ex_auth ex_elapsed by simp
qed

subsection \<open>C4: the suspicious flag\<close>




subsection \<open>C5: heartbeats after completion\<close>




subsection \<open>C6: the streak rules\<close>

text \<open>
  C6 states four rules for every run of the reconciler: on the completion date itself
  the row is unchanged, on the day after \<^verbatim>\<open>last_completed\<close> the streak grows by one. The
  source reads the clock once for \<^verbatim>\<open>today\<close> and once more for \<^verbatim>\<open>yesterday\<close>. With the first
  read at 2024-01-01T23:59:59.999Z (day 19723) and the second one millisecond later,
  \<^verbatim>\<open>yesterday\<close> is day 19723 as well: the row last completed on day 19723 is counted a
  second time on the same day (2 becomes 3), and the row last completed on day 19722 is
  reset to 1 where its streak should grow.
\<close>

theorem streak_rules_break_at_midnight:
  "utcDate 1704153599999 = 19723
   \<and> utcDate (1704153600000 - 86400000) = 19723
   \<and> midnight_streaks ''u1''
       = Some \<lparr>current_streak = 2, longest_streak = 2, last_completed = Some 19723,
               timezone = None\<rparr>
   \<and> updateStreak midnight_streaks ''u1'' 1704153599999 1704153600000 ''u1''
       = Some \<lparr>current_streak = 3, longest_streak = 3, last_completed = Some 19723,
               timezone = None\<rparr>
   \<and> day_before_streaks ''u1''
       = Some \<lparr>current_streak = 2, longest_streak = 2, last_completed = Some 19722,
               timezone = None\<rparr>
   \<and> updateStreak day_before_streaks ''u1'' 1704153599999 1704153600000 ''u1''
       = Some \<lparr>current_streak = 1, longest_streak = 2, last_completed = Some 19723,
               timezone = None\<rparr>"
  by (simp add: updateStreak_def Let_def midnight_streaks_def day_before_streaks_def
      no_streaks_def utcDate_def)

subsection \<open>C7: whose calendar the completion date is taken from\<close>

text \<open>
  C7 says that the completion date is the calendar date in the user's time zone. The
  source takes \<^verbatim>\<open>toISOString()\<close>, the UTC date, and never reads \<^verbatim>\<open>timezone\<close>. For the user
  in Tokyo, a completion at 2024-01-01T16:00:00Z is on day 19723 in UTC and on day 19724
  (2024-01-02, 01:00) in local time: the row, last completed on day 19723, is left as it
  is, where the local calendar would continue the streak.
\<close>

theorem streak_date_is_utc:
  "tokyo_streaks ''u1''
     = Some \<lparr>current_streak = 1, longest_streak = 1, last_completed = Some 19723,
             timezone = Some ''Asia/Tokyo''\<rparr>
   \<and> updateStreak tokyo_streaks ''u1'' 1704124800000 1704124800000 ''u1''
     = Some \<lparr>current_streak = 1, longest_streak = 1, last_completed = Some 19723,
             timezone = Some ''Asia/Tokyo''\<rparr>
   \<and> utcDate 1704124800000 = 19723
   \<and> spec_calendarDate 1704124800000 (9 * 3600000) = 19724"
  by (simp add: updateStreak_def Let_def tokyo_streaks_def utcDate_def spec_calendarDate_def)

subsection \<open>C8: the direction of \<^verbatim>\<open>last_completed\<close>\<close>

text \<open>
  C8 as stated: \<^verbatim>\<open>last_completed\<close> after a run of the reconciler is never before
  \<^verbatim>\<open>last_completed\<close> before it, also when the stored date lies after the completion date.
  It fails: a row last completed on day 5, reconciled on day 1, is reset to day 1.
\<close>

theorem last_completed_set_back:
  "future_streaks ''u1''
     = Some \<lparr>current_streak = 4, longest_streak = 6, last_completed = Some 5, timezone = None\<rparr>
   \<and> updateStreak future_streaks ''u1'' 86410000 86410000 ''u1''
     = Some \<lparr>current_streak = 1, longest_streak = 6, last_completed = Some 1, timezone = None\<rparr>
   \<and> (1::int) < 5"
  by (simp add: updateStreak_def Let_def future_streaks_def utcDate_def)

text \<open>
  C8 as amended: after every run of the reconciler the user's \<^verbatim>\<open>last_completed\<close> is the
  completion date \<^verbatim>\<open>today\<close>; so it does not move backwards whenever the stored date is not
  after the completion date.
\<close>

theorem last_completed_is_today:
  "(\<exists>s'. updateStreak tbl u tToday tYesterday u = Some s'
         \<and> last_completed s' = Some (utcDate tToday))
   \<and> (\<forall>s dd. tbl u = Some s \<and> last_completed s = Some dd \<and> dd \<le> utcDate tToday \<longrightarrow>
         (\<exists>s' d'. updateStreak tbl u tToday tYesterday u = Some s'
            \<and> last_completed s' = Some d' \<and> dd \<le> d'))"
  by (auto simp: updateStreak_def Let_def split: option.splits)

theorem last_completed_is_today_witness:
  "one_day_streaks ''u1''
       = Some \<lparr>current_streak = 1, longest_streak = 1, last_completed = Some 0, timezone = None\<rparr>
   \<and> (0::int) \<le> utcDate 86410000
   \<and> (\<exists>s' d'. updateStreak one_day_streaks ''u1'' 86410000 86410003 ''u1'' = Some s'
            \<and> last_completed s' = Some d' \<and> 0 \<le> d')"
proof -
  have s: "one_day_streaks ''u1''
       = Some \<lparr>current_streak = 1, longest_streak = 1, last_completed = Some 0, timezone = None\<rparr>"
    by (simp add: one_day_streaks_def)
  have d: "(0::int) \<le> utcDate 86410000" by (simp add: utcDate_def)
  note w = last_completed_is_today [of one_day_streaks "''u1''" 86410000 86410003, THEN conjunct2,
      rule_format, of _ 0]
  from w s d have "\<exists>s' d'. updateStreak one_day_streaks ''u1'' 86410000 86410003 ''u1'' = Some s'
            \<and> last_completed s' = Some d' \<and> 0 \<le> d'"
    by simp
  with s d show ?thesis by simp
qed

subsection \<open>C9: when the service worker sends the completion\<close>

text \<open>
  C9 says that the completion is sent exactly when the elapsed milliseconds have reached
  \<open>duration * 1000\<close>. The worker takes its \<open>state\<close> from \<^verbatim>\<open>getTimerState()\<close>, which hands it
  the \<^verbatim>\<open>IDBRequest\<close> and not the record: \<^verbatim>\<open>state.startTime\<close> and \<^verbatim>\<open>state.duration\<close> are
  \<^verbatim>\<open>undefined\<close>, the elapsed time is \<^verbatim>\<open>NaN\<close> and the test \<^verbatim>\<open>elapsed >= state.duration\<close> is
  false. For the 25 minutes the timer page posts, a sync event 25 minutes after the start
  (with the network available) sends nothing and leaves the record in the store.
\<close>

theorem sync_sends_nothing_after_duration:
  "saveTimerState page_timerData 1704124800000
     = Some \<lparr>startTime = 1704124800000, rec_duration = 1500, serverTime = 1704124800000,
             rec_userId = ''demo-user'', lastHeartbeat = 1704124800000\<rparr>
   \<and> td_duration page_timerData * 1000 \<le> 1704126300000 - td_startTime page_timerData
   \<and> syncTimerCompletion (saveTimerState page_timerData 1704124800000)
        1704126300000 1704126300000 True
     = (None, saveTimerState page_timerData 1704124800000)"
  by (simp add: saveTimerState_def syncTimerCompletion_def getTimerState_def
      state_startTime_def state_duration_def page_timerData_def Let_def)

subsection \<open>C10: what a heartbeat leaves unchanged\<close>

text \<open>
  C10: no heartbeat changes the \<^verbatim>\<open>start_time\<close> or the \<^verbatim>\<open>duration\<close> of any session; and a
  heartbeat whose drift exceeds 5000 ms writes only \<^verbatim>\<open>suspicious\<close> and \<^verbatim>\<open>drift_amount\<close> of
  the selected session: \<^verbatim>\<open>heartbeat_count\<close> and \<^verbatim>\<open>last_heartbeat\<close> keep their values, the
  other sessions and the streaks are as before.
\<close>

theorem drift_frame:
  "map start_time (timer_sessions (snd (POST d clk auth req))) = map start_time (timer_sessions d)
   \<and> map duration (timer_sessions (snd (POST d clk auth req))) = map duration (timer_sessions d)
   \<and> (primary_key d \<and> auth = Some (userId req)
        \<and> select_uncompleted (timer_sessions d) (userId req) = Some ts
        \<and> elapsed req = Num e
        \<and> 5000 < \<bar>clk 0 - start_time ts - e\<bar>
      \<longrightarrow> session_by_id (snd (POST d clk auth req)) (row_id ts)
            = Some (ts\<lparr>suspicious := True,
                       drift_amount := Some (Num \<bar>clk 0 - start_time ts - e\<bar>)\<rparr>)
          \<and> map heartbeat_count (timer_sessions (snd (POST d clk auth req)))
              = map heartbeat_count (timer_sessions d)
          \<and> map last_heartbeat (timer_sessions (snd (POST d clk auth req)))
              = map last_heartbeat (timer_sessions d)
          \<and> (\<forall>sid. sid \<noteq> row_id ts
                \<longrightarrow> session_by_id (snd (POST d clk auth req)) sid = session_by_id d sid)
          \<and> streaks (snd (POST d clk auth req)) = streaks d)"
proof (intro conjI impI)
  show "map start_time (timer_sessions (snd (POST d clk auth req))) = map start_time (timer_sessions d)"
    using POST_frame_start_duration [of d clk auth req] by simp
  show "map duration (timer_sessions (snd (POST d clk auth req))) = map duration (timer_sessions d)"
    using POST_frame_start_duration [of d clk auth req] by simp
next
  assume a: "primary_key d \<and> auth = Some (userId req)
        \<and> select_uncompleted (timer_sessions d) (userId req) = Some ts
        \<and> elapsed req = Num e
        \<and> 5000 < \<bar>clk 0 - start_time ts - e\<bar>"
  then have pk: "primary_key d" and au: "auth = Some (userId req)"
    and sel: "select_uncompleted (timer_sessions d) (userId req) = Some ts"
    and el: "elapsed req = Num e"
    and dr: "js_gt (js_abs_sub (clk 0 - start_time ts) (elapsed req)) 5000"
    by simp_all
  note p = POST_drift [where clk = clk, OF au sel dr]
  show "session_by_id (snd (POST d clk auth req)) (row_id ts)
            = Some (ts\<lparr>suspicious := True,
                       drift_amount := Some (Num \<bar>clk 0 - start_time ts - e\<bar>)\<rparr>)"
    by (simp add: p session_by_id_update [OF pk sel] el)
  show "map heartbeat_count (timer_sessions (snd (POST d clk auth req)))
              = map heartbeat_count (timer_sessions d)"
    by (simp add: p map_update_eq_id)
  show "map last_heartbeat (timer_sessions (snd (POST d clk auth req)))
              = map last_heartbeat (timer_sessions d)"
    by (simp add: p map_update_eq_id)
  show "\<forall>sid. sid \<noteq> row_id ts
                \<longrightarrow> session_by_id (snd (POST d clk auth req)) sid = session_by_id d sid"
    by (simp add: p session_by_id_def find_update_eq_id_other)
  show "streaks (snd (POST d clk auth req)) = streaks d"
    by (simp add: p)
qed

theorem drift_frame_witness:
  "primary_key ex_db
   \<and> Some ''u1'' = Some (userId (ex_request 0))
   \<and> select_uncompleted (timer_sessions ex_db) (userId (ex_request 0)) = Some ex_session
   \<and> elapsed (ex_request 0) = Num 0
   \<and> 5000 < \<bar>fixed_clock 10000 0 - start_time ex_session - 0\<bar>
   \<and> timer_sessions (snd (POST ex_db (fixed_clock 10000) (Some ''u1'') (ex_request 0)))
       = [ex_session\<lparr>suspicious := True, drift_amount := Some (Num 10000)\<rparr>]
   \<and> map heartbeat_count (timer_sessions (snd (POST ex_db (fixed_clock 10000) (Some ''u1'')
        (ex_request 0)))) = [None]
   \<and> map start_time (timer_sessions (snd (POST ex_db (fixed_clock 10000) (Some ''u1'')
        (ex_request 0)))) = [0]"
proof -
  have h: "5000 < \<bar>fixed_clock 10000 0 - start_time ex_session - 0\<bar>"
    by (simp add: fixed_clock_def ex_session_def)
  note w = drift_frame [where clk = "fixed_clock 10000" and d = ex_db and auth = "Some ''u1''"
      and req = "ex_request 0" and ts = ex_session and e = 0]
  have r: "timer_sessions (snd (POST ex_db (fixed_clock 10000) (Some ''u1'') (ex_request 0)))
       = [ex_session\<lparr>suspicious := True, drift_amount := Some (Num 10000)\<rparr>]"
    by (simp add: POST_def Let_def select_uncompleted_def ex_db_def ex_request_def
        ex_session_def fixed_clock_def update_eq_id_def)
  have v: "map heartbeat_count (timer_sessions ex_db) = [None]"
    "map start_time (timer_sessions ex_db) = [0]"
    by (simp_all add: ex_db_def ex_session_def)
  from w h ex_primary_key ex_auth [of 0] ex_select [of 0] ex_elapsed [of 0]
  have "map heartbeat_count (timer_sessions (snd (POST ex_db (fixed_clock 10000) (Some ''u1'')
        (ex_request 0)))) = [None]"
    and "map start_time (timer_sessions (snd (POST ex_db (fixed_clock 10000) (Some ''u1'')
        (ex_request 0)))) = [0]"
    by (simp_all add: v)
  with r h show ?thesis using ex_primary_key ex_auth ex_select ex_elapsed by simp
qed

end
